theory Spec2Isabelle
  imports Main
begin

section \<open>Responses of the control API\<close>

text \<open>
  \<^verbatim>\<open>type APIResp struct { Status string; Code int; Message string; Result interface{} }\<close>.
  The \<^verbatim>\<open>Result\<close> field is an empty interface: \<open>None\<close> is Go's \<^verbatim>\<open>nil\<close>, and
  \<open>Some d\<close> is the payload \<open>d\<close> handed to \<^verbatim>\<open>SuccessResp\<close>.
\<close>

record 'a APIResp =
  Status :: string
  Code :: int
  Message :: string
  Result :: "'a option"

definition SuccessResp :: "'a option \<Rightarrow> 'a APIResp" where
  "SuccessResp data = \<lparr>Status = ''ok'', Code = 200, Message = [], Result = data\<rparr>"

definition ErrorResp :: "int \<Rightarrow> string \<Rightarrow> 'a APIResp" where
  "ErrorResp code message = \<lparr>Status = ''error'', Code = code, Message = message, Result = None\<rparr>"

text \<open>
  What a handler writes to the client through the echo context: \<^verbatim>\<open>c.JSON(status, resp)\<close>,
  \<^verbatim>\<open>c.HTML(status, text)\<close>, \<^verbatim>\<open>c.HTMLBlob(status, bytes)\<close>.
\<close>

datatype 'a reply =
  JSON int "'a APIResp"
| HTML int string
| HTMLBlob int string

fun httpStatus :: "'a reply \<Rightarrow> int" where
  "httpStatus (JSON s r) = s"
| "httpStatus (HTML s t) = s"
| "httpStatus (HTMLBlob s b) = s"

text \<open>
  A handler either returns after writing a reply, or the goroutine panics
  (an index out of range, a nil pointer dereference).
\<close>

datatype 'a exit = Return "'a reply" | Panic

section \<open>Errors\<close>

text \<open>
  The package-level error variables that the handlers compare against with \<^verbatim>\<open>==\<close>.
  Their declarations (and so the texts given to \<^verbatim>\<open>errors.New\<close>) are outside the
  sources at hand: the text of each is the parameter \<open>msg\<close> of \<open>Error\<close> below. Any other
  error value is \<open>Other t\<close>, with \<open>t\<close> its \<^verbatim>\<open>Error()\<close> text; it is equal to none of the
  variables, whatever its text.
\<close>

datatype sentinel =
  ErrBadCredentials
| ErrInvalidPlanetID
| ErrNoShipSelected
| ErrUninhabitedPlanet
| ErrNoDebrisField
| ErrPlayerInVacationMode
| ErrAdminOrGM
| ErrNoAstrophysics
| ErrNoobProtection
| ErrPlayerTooStrong
| ErrNoMoonAvailable
| ErrNoRecyclerAvailable
| ErrNoEventsRunning
| ErrPlanetAlreadyReservedForRelocation

datatype error = Sentinel sentinel | Other string

fun Error :: "(sentinel \<Rightarrow> string) \<Rightarrow> error \<Rightarrow> string" where
  "Error msg (Sentinel s) = msg s"
| "Error msg (Other t) = t"

section \<open>strconv.ParseInt and strings.Split\<close>

definition isDigit :: "char \<Rightarrow> bool" where
  "isDigit c = (48 \<le> (of_char c :: nat) \<and> (of_char c :: nat) \<le> 57)"

definition digitVal :: "char \<Rightarrow> int" where
  "digitVal c = of_char c - 48"

text \<open>The value of a string of decimal digits, most significant first.\<close>

fun decimal :: "int \<Rightarrow> string \<Rightarrow> int" where
  "decimal acc [] = acc"
| "decimal acc (c # cs) = decimal (acc * 10 + digitVal c) cs"

text \<open>
  \<^verbatim>\<open>strconv.ParseUint(s, 10, 64)\<close>: a syntax error on the empty string and on any byte
  that is not a decimal digit, a range error from \<open>2 ^ 64\<close> on. \<open>None\<close> is either error.
\<close>

definition ParseUint :: "string \<Rightarrow> int option" where
  "ParseUint s =
     (if s = [] \<or> \<not> list_all isDigit s then None
      else if decimal 0 s \<ge> 2 ^ 64 then None
      else Some (decimal 0 s))"

text \<open>
  \<^verbatim>\<open>strconv.ParseInt(s, 10, 64)\<close>: an optional sign, then \<^verbatim>\<open>ParseUint\<close>; a range
  error outside \<open>- 2 ^ 63 .. 2 ^ 63 - 1\<close>. The handlers only test the error against
  \<^verbatim>\<open>nil\<close> and use the value when there is none, so \<open>None\<close> stands for every error.
\<close>

definition ParseInt :: "string \<Rightarrow> int option" where
  "ParseInt s =
     (case s of
        [] \<Rightarrow> None
      | c # cs \<Rightarrow>
          (let neg = (c = CHR ''-'');
               s' = (if c = CHR ''+'' \<or> c = CHR ''-'' then cs else s)
           in case ParseUint s' of
                None \<Rightarrow> None
              | Some un \<Rightarrow>
                  if \<not> neg \<and> un \<ge> 2 ^ 63 then None
                  else if neg \<and> un > 2 ^ 63 then None
                  else Some (if neg then - un else un)))"

text \<open>
  \<^verbatim>\<open>strings.Split(s, ",")\<close>: the pieces of \<open>s\<close> between commas; always at least one
  piece. \<open>cur\<close> holds the bytes of the current piece, latest first.
\<close>

fun splitFrom :: "string \<Rightarrow> string \<Rightarrow> string list" where
  "splitFrom cur [] = [rev cur]"
| "splitFrom cur (c # cs) =
     (if c = CHR '','' then rev cur # splitFrom [] cs else splitFrom (c # cur) cs)"

definition Split :: "string \<Rightarrow> string list" where
  "Split s = splitFrom [] s"

section \<open>The bot and the request seen by a handler\<close>

text \<open>
  The fields of \<^verbatim>\<open>*OGame\<close> that the handlers read or write. The rest of the bot (its
  session, its lock, its client) is the extension of the record; the methods of the bot are not
  in the sources at hand and are parameters of the handlers, each taking the bot and
  returning it with its results.
\<close>

record OGame =
  Username :: string
  password :: string
  otpSecret :: string
  ChallengeID :: string
  state :: string

text \<open>
  The part of \<^verbatim>\<open>echo.Context\<close> that the handlers read: the path parameters, the error of
  \<^verbatim>\<open>c.Request().ParseForm()\<close> (\<open>None\<close> is \<^verbatim>\<open>nil\<close>), and the form and query values
  (\<^verbatim>\<open>url.Values\<close>, a map from a key to its values). A Go map is ranged over in an order
  that is not specified: the list gives the keys in the order of that run.
\<close>

type_synonym Values = "(string \<times> string list) list"

record request =
  Param :: "string \<Rightarrow> string"
  ParseForm :: "error option"
  Form :: Values
  PostForm :: Values
  QueryParams :: Values

definition badRequest :: "string \<Rightarrow> 'a exit" where
  "badRequest message = Return (JSON 400 (ErrorResp 400 message))"

section \<open>LoginHandler\<close>

text \<open>
  \<open>LoginWithExistingCookies\<close> is the method of the bot; the handler discards its first result.
\<close>

definition LoginHandler ::
  "(sentinel \<Rightarrow> string) \<Rightarrow> ('b \<Rightarrow> (bool \<times> error option) \<times> 'b) \<Rightarrow> 'b \<Rightarrow> 'a exit \<times> 'b" where
  "LoginHandler msg LoginWithExistingCookies bot0 =
     (case LoginWithExistingCookies bot0 of
        ((_, Some err), bot1) \<Rightarrow>
          if err = Sentinel ErrBadCredentials
          then (Return (JSON 400 (ErrorResp 400 (Error msg err))), bot1)
          else (Return (JSON 500 (ErrorResp 500 (Error msg err))), bot1)
      | ((_, None), bot1) \<Rightarrow> (Return (JSON 200 (SuccessResp None)), bot1))"

section \<open>PageContentHandler, GetFleetsHandler, IsUnderAttackHandler, GetFromGameHandler\<close>

definition PageContentHandler ::
  "(sentinel \<Rightarrow> string) \<Rightarrow> (Values \<Rightarrow> 'b \<Rightarrow> (string \<times> error option) \<times> 'b) \<Rightarrow>
     request \<Rightarrow> 'b \<Rightarrow> string exit \<times> 'b" where
  "PageContentHandler msg GetPageContent req bot0 =
     (case ParseForm req of
        Some err \<Rightarrow> (badRequest (Error msg err), bot0)
      | None \<Rightarrow>
          (case GetPageContent (Form req) bot0 of
             ((pageHTML, _), bot1) \<Rightarrow> (Return (JSON 200 (SuccessResp (Some pageHTML))), bot1)))"

definition GetFleetsHandler ::
  "('b \<Rightarrow> ('f \<times> error option) \<times> 'b) \<Rightarrow> 'b \<Rightarrow> 'f exit \<times> 'b" where
  "GetFleetsHandler GetFleets bot0 =
     (case GetFleets bot0 of
        ((fleets, _), bot1) \<Rightarrow> (Return (JSON 200 (SuccessResp (Some fleets))), bot1))"

text \<open>A sibling handler of the same file, which does test the error.\<close>

definition IsUnderAttackHandler ::
  "(sentinel \<Rightarrow> string) \<Rightarrow> ('b \<Rightarrow> (bool \<times> error option) \<times> 'b) \<Rightarrow> 'b \<Rightarrow> bool exit \<times> 'b" where
  "IsUnderAttackHandler msg IsUnderAttack bot0 =
     (case IsUnderAttack bot0 of
        ((isUnderAttack, Some err), bot1) \<Rightarrow>
          (Return (JSON 500 (ErrorResp 500 (Error msg err))), bot1)
      | ((isUnderAttack, None), bot1) \<Rightarrow>
          (Return (JSON 200 (SuccessResp (Some isUnderAttack))), bot1))"

text \<open>
  \<^verbatim>\<open>GetFromGameHandler\<close> calls \<^verbatim>\<open>c.HTMLBlob\<close> once or twice, and returns after the last
  call only: its result is the list of what it wrote, in order. \<open>getPageContent\<close> is the
  method of the bot that does not take its lock, \<open>GetPageContent\<close> the one that does.
  \<open>rewrite\<close> is \<^verbatim>\<open>replaceHostname\<close> followed by \<^verbatim>\<open>disableCookiebanner1\<close>, a
  substitution in the bytes of the page, for the bot and the host of the request.
\<close>

definition GetFromGameHandler ::
  "(sentinel \<Rightarrow> string) \<Rightarrow>
   (Values \<Rightarrow> 'm OGame_scheme \<Rightarrow> (string \<times> error option) \<times> 'm OGame_scheme) \<Rightarrow>
   (Values \<Rightarrow> 'm OGame_scheme \<Rightarrow> (string \<times> error option) \<times> 'm OGame_scheme) \<Rightarrow>
   ('m OGame_scheme \<Rightarrow> string \<Rightarrow> string) \<Rightarrow>
   request \<Rightarrow> 'm OGame_scheme \<Rightarrow> 'a reply list \<times> 'm OGame_scheme" where
  "GetFromGameHandler msg getPageContent GetPageContent rewrite req bot0 =
     (let vals = (if length (QueryParams req) > 0 then QueryParams req
                  else [(''page'', [''ingame'']), (''component'', [''overview''])]);
          ((pageHTML, err), bot1) =
             (if state bot0 = ''Manuel Mode'' then getPageContent vals bot0
              else GetPageContent vals bot0);
          pageHTML' = rewrite bot1 pageHTML
      in case err of
           Some e \<Rightarrow> ([HTMLBlob 200 (Error msg e), HTMLBlob 200 pageHTML'], bot1)
         | None \<Rightarrow> ([HTMLBlob 200 pageHTML'], bot1))"

section \<open>SendFleetHandler\<close>

text \<open>
  \<^verbatim>\<open>Quantifiable\<close>, \<^verbatim>\<open>Coordinate\<close> and \<^verbatim>\<open>Resources\<close> with the fields the handler sets.
  The named integer types (\<^verbatim>\<open>ID\<close>, \<^verbatim>\<open>Speed\<close>, \<^verbatim>\<open>CelestialType\<close>, \<^verbatim>\<open>MissionID\<close>,
  \<^verbatim>\<open>CelestialID\<close>) are declared outside the sources at hand; a conversion to one of them
  keeps the parsed value.
\<close>

record Quantifiable =
  ID :: int
  Nbr :: int

record Coordinate =
  Galaxy :: int
  System :: int
  Position :: int
  Type :: int

record Resources =
  Metal :: int
  Crystal :: int
  Deuterium :: int

text \<open>
  What the handler uses and the sources at hand do not declare: the constants
  \<^verbatim>\<open>PlanetType\<close>, \<^verbatim>\<open>Transport\<close> and \<^verbatim>\<open>HundredPercent\<close>, the predicate \<^verbatim>\<open>IsShipID\<close>,
  and the texts of the error variables.
\<close>

record decls =
  PlanetType :: int
  Transport :: int
  HundredPercent :: int
  IsShipID :: "int \<Rightarrow> bool"
  errText :: "sentinel \<Rightarrow> string"

text \<open>The local variables of the handler, which become the arguments of \<^verbatim>\<open>bot.SendFleet\<close>.\<close>

record locals =
  ships :: "Quantifiable list"
  where' :: Coordinate
  mission :: int
  duration :: int
  unionID :: int
  payload :: Resources
  speed :: int

definition initLocals :: "decls \<Rightarrow> locals" where
  "initLocals D =
     \<lparr>ships = [],
      where' = \<lparr>Galaxy = 0, System = 0, Position = 0, Type = PlanetType D\<rparr>,
      mission = Transport D,
      duration = 0,
      unionID = 0,
      payload = \<lparr>Metal = 0, Crystal = 0, Deuterium = 0\<rparr>,
      speed = HundredPercent D\<rparr>"

text \<open>
  The loop over the values of the key \<^verbatim>\<open>ships\<close>. \<^verbatim>\<open>a[0]\<close> exists for every string;
  \<^verbatim>\<open>a[1]\<close> is out of range when the value has no comma, and the handler panics.
\<close>

fun shipsLoop :: "decls \<Rightarrow> string list \<Rightarrow> Quantifiable list \<Rightarrow> 'a exit + Quantifiable list" where
  "shipsLoop D [] acc = Inr acc"
| "shipsLoop D (s # values) acc =
     (case Split s of
        [] \<Rightarrow> Inl Panic
      | a0 # rest \<Rightarrow>
          (case ParseInt a0 of
             None \<Rightarrow> Inl (badRequest (''invalid ship id '' @ a0))
           | Some shipID \<Rightarrow>
               if \<not> IsShipID D shipID then Inl (badRequest (''invalid ship id '' @ a0))
               else
                 (case rest of
                    [] \<Rightarrow> Inl Panic
                  | a1 # _ \<Rightarrow>
                      (case ParseInt a1 of
                         None \<Rightarrow> Inl (badRequest (''invalid nbr '' @ a1))
                       | Some nbr \<Rightarrow>
                           if nbr < 0 then Inl (badRequest (''invalid nbr '' @ a1))
                           else shipsLoop D values (acc @ [\<lparr>ID = shipID, Nbr = nbr\<rparr>])))))"

text \<open>
  \<^verbatim>\<open>strconv.ParseInt(values[0], 10, 64)\<close> followed by the test of its error: a panic when
  the key has no value, the reply \<open>400\<close> with the text \<open>what\<close> when the value does not
  parse, and otherwise the rest of the case, \<open>k\<close>, on the parsed value.
\<close>

definition firstInt ::
  "string list \<Rightarrow> string \<Rightarrow> (int \<Rightarrow> 'a exit + locals) \<Rightarrow> 'a exit + locals" where
  "firstInt values what k =
     (case values of
        [] \<Rightarrow> Inl Panic
      | v # _ \<Rightarrow> (case ParseInt v of None \<Rightarrow> Inl (badRequest what) | Some n \<Rightarrow> k n))"

text \<open>One iteration of the loop over the form: the \<^verbatim>\<open>switch\<close> on the key.\<close>

definition formStep :: "decls \<Rightarrow> string \<Rightarrow> string list \<Rightarrow> locals \<Rightarrow> 'a exit + locals" where
  "formStep D key values l =
     (if key = ''ships'' then
        (case shipsLoop D values (ships l) of
           Inl e \<Rightarrow> Inl e
         | Inr sh \<Rightarrow> Inr (l\<lparr>ships := sh\<rparr>))
      else if key = ''speed'' then
        firstInt values ''invalid speed'' (\<lambda>speedInt.
          if speedInt < 0 \<or> speedInt > 10 then Inl (badRequest ''invalid speed'')
          else Inr (l\<lparr>speed := speedInt\<rparr>))
      else if key = ''galaxy'' then
        firstInt values ''invalid galaxy'' (\<lambda>galaxy.
          Inr (l\<lparr>where' := (where' l)\<lparr>Galaxy := galaxy\<rparr>\<rparr>))
      else if key = ''system'' then
        firstInt values ''invalid system'' (\<lambda>system.
          Inr (l\<lparr>where' := (where' l)\<lparr>System := system\<rparr>\<rparr>))
      else if key = ''position'' then
        firstInt values ''invalid position'' (\<lambda>position.
          Inr (l\<lparr>where' := (where' l)\<lparr>Position := position\<rparr>\<rparr>))
      else if key = ''type'' then
        firstInt values ''invalid type'' (\<lambda>t.
          Inr (l\<lparr>where' := (where' l)\<lparr>Type := t\<rparr>\<rparr>))
      else if key = ''mission'' then
        firstInt values ''invalid mission'' (\<lambda>missionInt.
          Inr (l\<lparr>mission := missionInt\<rparr>))
      else if key = ''duration'' then
        firstInt values ''invalid duration'' (\<lambda>d. Inr (l\<lparr>duration := d\<rparr>))
      else if key = ''union'' then
        firstInt values ''invalid union id'' (\<lambda>u. Inr (l\<lparr>unionID := u\<rparr>))
      else if key = ''metal'' then
        firstInt values ''invalid metal'' (\<lambda>metal.
          if metal < 0 then Inl (badRequest ''invalid metal'')
          else Inr (l\<lparr>payload := (payload l)\<lparr>Metal := metal\<rparr>\<rparr>))
      else if key = ''crystal'' then
        firstInt values ''invalid crystal'' (\<lambda>crystal.
          if crystal < 0 then Inl (badRequest ''invalid crystal'')
          else Inr (l\<lparr>payload := (payload l)\<lparr>Crystal := crystal\<rparr>\<rparr>))
      else if key = ''deuterium'' then
        firstInt values ''invalid deuterium'' (\<lambda>deuterium.
          if deuterium < 0 then Inl (badRequest ''invalid deuterium'')
          else Inr (l\<lparr>payload := (payload l)\<lparr>Deuterium := deuterium\<rparr>\<rparr>))
      else Inr l)"

text \<open>\<^verbatim>\<open>for key, values := range c.Request().PostForm\<close>, leaving at the first \<^verbatim>\<open>return\<close>.\<close>

fun formLoop :: "decls \<Rightarrow> Values \<Rightarrow> locals \<Rightarrow> 'a exit + locals" where
  "formLoop D [] l = Inr l"
| "formLoop D ((key, values) # form) l =
     (case formStep D key values l of
        Inl e \<Rightarrow> Inl e
      | Inr l' \<Rightarrow> formLoop D form l')"

text \<open>
  Everything before the call of \<^verbatim>\<open>bot.SendFleet\<close>: either the handler has already
  returned (or panicked), or it holds the planet id and the arguments of the call.
\<close>

definition sendFleetArgs :: "decls \<Rightarrow> request \<Rightarrow> 'a exit + int \<times> locals" where
  "sendFleetArgs D req =
     (case ParseInt (Param req ''planetID'') of
        None \<Rightarrow> Inl (badRequest ''invalid planet id'')
      | Some planetID \<Rightarrow>
          (case ParseForm req of
             Some err \<Rightarrow> Inl (badRequest ''invalid form'')
           | None \<Rightarrow>
               (case formLoop D (PostForm req) (initLocals D) of
                  Inl e \<Rightarrow> Inl e
                | Inr l \<Rightarrow> Inr (planetID, l))))"

text \<open>The two tests of the error of \<^verbatim>\<open>bot.SendFleet\<close>, and the reply in each case.\<close>

definition sendFleetReply :: "decls \<Rightarrow> 'f \<Rightarrow> error option \<Rightarrow> 'f exit" where
  "sendFleetReply D fleet e =
     (case e of
        Some err \<Rightarrow>
          if err = Sentinel ErrInvalidPlanetID \<or>
             err = Sentinel ErrNoShipSelected \<or>
             err = Sentinel ErrUninhabitedPlanet \<or>
             err = Sentinel ErrNoDebrisField \<or>
             err = Sentinel ErrPlayerInVacationMode \<or>
             err = Sentinel ErrAdminOrGM \<or>
             err = Sentinel ErrNoAstrophysics \<or>
             err = Sentinel ErrNoobProtection \<or>
             err = Sentinel ErrPlayerTooStrong \<or>
             err = Sentinel ErrNoMoonAvailable \<or>
             err = Sentinel ErrNoRecyclerAvailable \<or>
             err = Sentinel ErrNoEventsRunning \<or>
             err = Sentinel ErrPlanetAlreadyReservedForRelocation
          then Return (JSON 400 (ErrorResp 400 (Error (errText D) err)))
          else Return (JSON 500 (ErrorResp 500 (Error (errText D) err)))
      | None \<Rightarrow> Return (JSON 200 (SuccessResp (Some fleet))))"

text \<open>
  The handler. \<open>SendFleet\<close> is the method of the bot, called on the planet id and the
  seven locals; it returns a fleet and an error, and the bot as it has left it.
\<close>

definition SendFleetHandler ::
  "decls \<Rightarrow> (int \<Rightarrow> locals \<Rightarrow> 'b \<Rightarrow> ('f \<times> error option) \<times> 'b) \<Rightarrow> request \<Rightarrow> 'b \<Rightarrow> 'f exit \<times> 'b" where
  "SendFleetHandler D SendFleet req bot0 =
     (case sendFleetArgs D req of
        Inl e \<Rightarrow> (e, bot0)
      | Inr (planetID, l) \<Rightarrow>
          (case SendFleet planetID l bot0 of
             ((fleet, err), bot1) \<Rightarrow> (sendFleetReply D fleet err, bot1)))"

text \<open>The thirteen error variables of the first test of \<open>sendFleetReply\<close>.\<close>

definition preconditionErrors :: "sentinel list" where
  "preconditionErrors =
     [ErrNoShipSelected, ErrUninhabitedPlanet, ErrNoDebrisField, ErrPlayerInVacationMode,
      ErrAdminOrGM, ErrNoAstrophysics, ErrNoobProtection, ErrPlayerTooStrong,
      ErrNoMoonAvailable, ErrNoRecyclerAvailable, ErrNoEventsRunning,
      ErrPlanetAlreadyReservedForRelocation, ErrInvalidPlanetID]"

text \<open>The keys of a form.\<close>

definition keys :: "Values \<Rightarrow> string list" where
  "keys form = map fst form"

subsection \<open>bot.SendFleet\<close>

text \<open>
  Modelled from the spec: the traffic of the bot with the remote game service, which is
  not in the sources at hand. The spec counts the network calls of an operation ("zero
  network calls on violation"): the bot is taken together with the number of requests it
  has sent.
\<close>

record 'b tracked =
  requests :: nat
  inner :: 'b

text \<open>
  Modelled from the spec: \<^verbatim>\<open>bot.SendFleet\<close>, the method of the bot that
  \<^verbatim>\<open>SendFleetHandler\<close> calls, which is not in the sources at hand. The spec lists its
  preconditions, "fail fast, zero network calls on violation", the first being "at least
  one ship selected", and says that "each violated precondition returns a distinct, named
  reason": with no ship it returns \<^verbatim>\<open>ErrNoShipSelected\<close> (and the zero fleet,
  \<open>noFleet\<close>) and leaves the bot, with its count of requests, as it is. The other
  preconditions and the submission are \<open>dispatch\<close>.
\<close>

definition SendFleet_spec ::
  "'f \<Rightarrow> (int \<Rightarrow> locals \<Rightarrow> 'b tracked \<Rightarrow> ('f \<times> error option) \<times> 'b tracked) \<Rightarrow>
     int \<Rightarrow> locals \<Rightarrow> 'b tracked \<Rightarrow> ('f \<times> error option) \<times> 'b tracked" where
  "SendFleet_spec noFleet dispatch planetID l bot0 =
     (if ships l = [] then ((noFleet, Some (Sentinel ErrNoShipSelected)), bot0)
      else dispatch planetID l bot0)"

section \<open>GetCaptchaHandler\<close>

text \<open>An outgoing \<^verbatim>\<open>*http.Request\<close>, with its header as the list of its entries.\<close>

record httpReq =
  Method :: string
  URL :: string
  Body :: string
  Header :: "(string \<times> string) list"

text \<open>
  \<^verbatim>\<open>http.CanonicalHeaderKey\<close>: a key made of valid header field bytes (letters, digits
  and the marks of a token) gets an upper-case letter first and after each hyphen and
  lower-case letters elsewhere; any other key is returned as it is.
\<close>

definition validHeaderFieldByte :: "char \<Rightarrow> bool" where
  "validHeaderFieldByte c =
     (let n = (of_char c :: nat)
      in (48 \<le> n \<and> n \<le> 57) \<or> (65 \<le> n \<and> n \<le> 90) \<or> (97 \<le> n \<and> n \<le> 122) \<or>
         n \<in> set [33, 35, 36, 37, 38, 39, 42, 43, 45, 46, 94, 95, 96, 124, 126])"

fun canonical :: "bool \<Rightarrow> string \<Rightarrow> string" where
  "canonical upper [] = []"
| "canonical upper (c # cs) =
     (let n = (of_char c :: nat);
          c' = (if upper \<and> 97 \<le> n \<and> n \<le> 122 then char_of (n - 32)
                else if \<not> upper \<and> 65 \<le> n \<and> n \<le> 90 then char_of (n + 32)
                else c)
      in c' # canonical (c' = CHR ''-'') cs)"

definition CanonicalHeaderKey :: "string \<Rightarrow> string" where
  "CanonicalHeaderKey s = (if list_all validHeaderFieldByte s then canonical True s else s)"

text \<open>
  \<^verbatim>\<open>req.Header.Add(key, value)\<close> appends the value under the canonical form of the key,
  and \<^verbatim>\<open>req.Header.Values(key)\<close> gives the values under the canonical form of the key.
\<close>

definition HeaderAdd :: "string \<Rightarrow> string \<Rightarrow> httpReq \<Rightarrow> httpReq" where
  "HeaderAdd key v req = req\<lparr>Header := Header req @ [(CanonicalHeaderKey key, v)]\<rparr>"

definition HeaderValues :: "string \<Rightarrow> httpReq \<Rightarrow> string list" where
  "HeaderValues key req =
     map snd (filter (\<lambda>kv. fst kv = CanonicalHeaderKey key) (Header req))"

text \<open>
  \<^verbatim>\<open>http.NewRequest(method, url, body)\<close>: \<open>invalid\<close> is the error of the standard library
  for a method and a URL it refuses (\<open>None\<close> when it accepts them).
\<close>

definition NewRequest ::
  "(string \<Rightarrow> string \<Rightarrow> error option) \<Rightarrow> string \<Rightarrow> string \<Rightarrow> string \<Rightarrow> error + httpReq" where
  "NewRequest invalid method url body =
     (case invalid method url of
        Some err \<Rightarrow> Inl err
      | None \<Rightarrow> Inr \<lparr>Method = method, URL = url, Body = body, Header = []\<rparr>)"

text \<open>\<^verbatim>\<open>totp.ValidateOpts\<close> of the one-time-password library, with the fields the handler sets.\<close>

datatype Digits = DigitsSix | DigitsEight

datatype Algorithm = AlgorithmSHA1 | AlgorithmSHA256 | AlgorithmSHA512 | AlgorithmMD5

record ValidateOpts =
  Period :: nat
  Skew :: nat
  Digits :: Digits
  Algorithm :: Algorithm

text \<open>
  The handler up to the point where the request is ready to be sent. \<open>cfg\<close> is the result
  of \<^verbatim>\<open>getConfiguration(bot)\<close>, \<open>now\<close> that of \<^verbatim>\<open>time.Now()\<close>, \<open>Encode\<close> is
  \<^verbatim>\<open>url.Values.Encode\<close> and \<open>GenerateCodeCustom\<close> the function of the library.
\<close>

definition captchaRequest ::
  "(sentinel \<Rightarrow> string) \<Rightarrow> (Values \<Rightarrow> string) \<Rightarrow> (string \<Rightarrow> string \<Rightarrow> error option) \<Rightarrow>
   (string \<Rightarrow> 't \<Rightarrow> ValidateOpts \<Rightarrow> string \<times> error option) \<Rightarrow> 't \<Rightarrow>
   (string \<times> string) \<times> error option \<Rightarrow> 'm OGame_scheme \<Rightarrow> 'a exit + httpReq" where
  "captchaRequest msg Encode invalid GenerateCodeCustom now cfg bot0 =
     (case cfg of
        (_, Some err) \<Rightarrow> Inl (Return (HTML 200 (Error msg err)))
      | ((gameEnvironmentID, platformGameID), None) \<Rightarrow>
          (let payload =
                 [(''autoGameAccountCreation'', [''false'']),
                  (''gameEnvironmentId'', [gameEnvironmentID]),
                  (''platformGameId'', [platformGameID]),
                  (''gfLang'', [''en'']),
                  (''locale'', [''en_GB'']),
                  (''identity'', [Username bot0]),
                  (''password'', [password bot0])]
           in case NewRequest invalid ''POST'' ''https://gameforge.com/api/v1/auth/thin/sessions''
                     (Encode payload) of
                Inl err \<Rightarrow> Inl (Return (HTML 200 (Error msg err)))
              | Inr req \<Rightarrow>
                  if otpSecret bot0 \<noteq> [] then
                    (case GenerateCodeCustom (otpSecret bot0) now
                            \<lparr>Period = 30, Skew = 1, Digits = DigitsSix,
                             Algorithm = AlgorithmSHA1\<rparr> of
                       (passcode, Some err) \<Rightarrow> Inl (Return (HTML 200 (Error msg err)))
                     | (passcode, None) \<Rightarrow>
                         Inr (HeaderAdd ''Accept-Encoding'' ''gzip, deflate, br''
                               (HeaderAdd ''Content-Type'' ''application/x-www-form-urlencoded''
                                 (HeaderAdd ''tnt-installation-id'' []
                                   (HeaderAdd ''tnt-2fa-code'' passcode req)))))
                  else
                    Inr (HeaderAdd ''Accept-Encoding'' ''gzip, deflate, br''
                          (HeaderAdd ''Content-Type'' ''application/x-www-form-urlencoded''
                            req))))"

text \<open>
  The handler: the configuration, the request, its sending through
  \<^verbatim>\<open>bot.doReqWithLoginProxyTransport\<close>, and then the handling of the response (status
  403, status 409 with the fetch of the challenge, any other status), which is \<open>answer\<close>.
\<close>

definition GetCaptchaHandler ::
  "(sentinel \<Rightarrow> string) \<Rightarrow> (Values \<Rightarrow> string) \<Rightarrow> (string \<Rightarrow> string \<Rightarrow> error option) \<Rightarrow>
   (string \<Rightarrow> 't \<Rightarrow> ValidateOpts \<Rightarrow> string \<times> error option) \<Rightarrow> 't \<Rightarrow>
   ('m OGame_scheme \<Rightarrow> ((string \<times> string) \<times> error option) \<times> 'm OGame_scheme) \<Rightarrow>
   (httpReq \<Rightarrow> 'm OGame_scheme \<Rightarrow> ('r \<times> error option) \<times> 'm OGame_scheme) \<Rightarrow>
   ('r \<Rightarrow> 'm OGame_scheme \<Rightarrow> 'a exit \<times> 'm OGame_scheme) \<Rightarrow>
   'm OGame_scheme \<Rightarrow> 'a exit \<times> 'm OGame_scheme" where
  "GetCaptchaHandler msg Encode invalid GenerateCodeCustom now getConfiguration doReq answer bot0 =
     (case getConfiguration bot0 of
        (cfg, bot1) \<Rightarrow>
          (case captchaRequest msg Encode invalid GenerateCodeCustom now cfg bot1 of
             Inl e \<Rightarrow> (e, bot1)
           | Inr req \<Rightarrow>
               (case doReq req bot1 of
                  ((resp, Some err), bot2) \<Rightarrow> (Return (HTML 200 (Error msg err)), bot2)
                | ((resp, None), bot2) \<Rightarrow> answer resp bot2)))"

section \<open>GetCaptchaSolverHandler\<close>

text \<open>
  \<^verbatim>\<open>type captchaSolver struct { ID string; LastUpdated int64; Status string }\<close>; the
  handler replies with the whole of it, or with its status alone.
\<close>

record captchaSolver =
  ID_solver :: string
  LastUpdated :: int
  Status_solver :: string

datatype solved = OutStatus string | Out captchaSolver

text \<open>What the handler does to the world besides replying, in the order of the calls.\<close>

datatype event = Sent httpReq | Logged | LoginCalled

text \<open>\<^verbatim>\<open>c.Request().PostFormValue(key)\<close>: the first value of the key, or the empty string.\<close>

definition PostFormValue :: "request \<Rightarrow> string \<Rightarrow> string" where
  "PostFormValue req key =
     (case map_of (PostForm req) key of
        Some (v # _) \<Rightarrow> v
      | _ \<Rightarrow> [])"

text \<open>
  The first part of the handler: the submission of the answer and the reading of the
  status. The errors of \<^verbatim>\<open>http.NewRequest\<close> and of the transport are discarded by the
  handler, which then dereferences a nil request or a nil response (\<open>None\<close>) and panics.
  \<open>readBody\<close> gives the body and its error, \<open>Unmarshal\<close> the value of \<^verbatim>\<open>out\<close> after
  \<^verbatim>\<open>json.Unmarshal(by, &out)\<close> and its error; both errors are logged by \<^verbatim>\<open>bot.error\<close>
  and the handler goes on. The result is \<^verbatim>\<open>out\<close>, the bot and the events so far.
\<close>

definition submitAnswer ::
  "(string \<Rightarrow> string \<Rightarrow> error option) \<Rightarrow>
   (httpReq \<Rightarrow> 'm OGame_scheme \<Rightarrow> 'r option \<times> 'm OGame_scheme) \<Rightarrow>
   ('r \<Rightarrow> string \<times> error option) \<Rightarrow> (string \<Rightarrow> captchaSolver \<times> error option) \<Rightarrow>
   request \<Rightarrow> 'm OGame_scheme \<Rightarrow>
   'm OGame_scheme \<times> event list + captchaSolver \<times> 'm OGame_scheme \<times> event list" where
  \<open>submitAnswer invalid doReq readBody Unmarshal c bot0 =
     (let challengeID = PostFormValue c ''challenge_id'';
          answer = PostFormValue c ''answer'';
          payload = ''{"answer":'' @ answer @ ''}''
      in case NewRequest invalid ''POST''
                (''https://image-drop-challenge.gameforge.com/challenge/'' @ challengeID @ ''/en-GB'')
                payload of
           Inl _ \<Rightarrow> Inl (bot0, [])
         | Inr req0 \<Rightarrow>
             (let req = HeaderAdd ''Accept-Encoding'' ''gzip, deflate, br''
                          (HeaderAdd ''Content-Type'' ''application/json'' req0)
              in case doReq req bot0 of
                   (None, bot1) \<Rightarrow> Inl (bot1, [Sent req])
                 | (Some resp, bot1) \<Rightarrow>
                     (case readBody resp of
                        (by, err1) \<Rightarrow>
                          (case Unmarshal by of
                             (out, err2) \<Rightarrow>
                               Inr (out,
                                    (if Status_solver out = ''solved''
                                     then bot1\<lparr>ChallengeID := []\<rparr> else bot1),
                                    [Sent req] @ (if err1 \<noteq> None then [Logged] else [])
                                      @ (if err2 \<noteq> None then [Logged] else []))))))\<close>

text \<open>
  The handler: after the submission, the login if the bot is not logged in, whatever the
  status read, and the reply.
\<close>

definition GetCaptchaSolverHandler ::
  "(string \<Rightarrow> string \<Rightarrow> error option) \<Rightarrow>
   (httpReq \<Rightarrow> 'm OGame_scheme \<Rightarrow> 'r option \<times> 'm OGame_scheme) \<Rightarrow>
   ('r \<Rightarrow> string \<times> error option) \<Rightarrow> (string \<Rightarrow> captchaSolver \<times> error option) \<Rightarrow>
   ('m OGame_scheme \<Rightarrow> bool) \<Rightarrow>
   ('m OGame_scheme \<Rightarrow> (bool \<times> error option) \<times> 'm OGame_scheme) \<Rightarrow>
   request \<Rightarrow> 'm OGame_scheme \<Rightarrow> solved exit \<times> 'm OGame_scheme \<times> event list" where
  "GetCaptchaSolverHandler invalid doReq readBody Unmarshal IsLoggedIn LoginWithExistingCookies c bot0 =
     (case submitAnswer invalid doReq readBody Unmarshal c bot0 of
        Inl (bot1, evs) \<Rightarrow> (Panic, bot1, evs)
      | Inr (out, bot2, evs) \<Rightarrow>
          if \<not> IsLoggedIn bot2 then
            (case LoginWithExistingCookies bot2 of
               ((_, Some err), bot3) \<Rightarrow>
                 (Return (JSON 409 (SuccessResp (Some (OutStatus (Status_solver out))))),
                  bot3, evs @ [LoginCalled, Logged])
             | ((_, None), bot3) \<Rightarrow>
                 (Return (JSON 200 (SuccessResp (Some (Out out)))), bot3, evs @ [LoginCalled]))
          else (Return (JSON 200 (SuccessResp (Some (Out out)))), bot2, evs))"

text \<open>The requests among the events.\<close>

fun sentRequests :: "event list \<Rightarrow> httpReq list" where
  "sentRequests [] = []"
| "sentRequests (Sent r # evs) = r # sentRequests evs"
| "sentRequests (_ # evs) = sentRequests evs"

section \<open>Sample inputs\<close>

text \<open>
  Concrete declarations and requests on which the handlers are evaluated below. The texts
  of the error variables are samples (the name of each variable); the request is the one
  of the comment above \<^verbatim>\<open>SendFleetHandler\<close>:
  \<^verbatim>\<open>curl 127.0.0.1:1234/bot/planets/123/send-fleet -d 'ships=203,1&ships=204,10&speed=10&galaxy=1&system=1&type=1&position=1&mission=3&metal=1&crystal=2&deuterium=3'\<close>.
\<close>

fun sampleText :: "sentinel \<Rightarrow> string" where
  "sampleText ErrBadCredentials = ''ErrBadCredentials''"
| "sampleText ErrInvalidPlanetID = ''ErrInvalidPlanetID''"
| "sampleText ErrNoShipSelected = ''ErrNoShipSelected''"
| "sampleText ErrUninhabitedPlanet = ''ErrUninhabitedPlanet''"
| "sampleText ErrNoDebrisField = ''ErrNoDebrisField''"
| "sampleText ErrPlayerInVacationMode = ''ErrPlayerInVacationMode''"
| "sampleText ErrAdminOrGM = ''ErrAdminOrGM''"
| "sampleText ErrNoAstrophysics = ''ErrNoAstrophysics''"
| "sampleText ErrNoobProtection = ''ErrNoobProtection''"
| "sampleText ErrPlayerTooStrong = ''ErrPlayerTooStrong''"
| "sampleText ErrNoMoonAvailable = ''ErrNoMoonAvailable''"
| "sampleText ErrNoRecyclerAvailable = ''ErrNoRecyclerAvailable''"
| "sampleText ErrNoEventsRunning = ''ErrNoEventsRunning''"
| "sampleText ErrPlanetAlreadyReservedForRelocation = ''ErrPlanetAlreadyReservedForRelocation''"

definition sampleDecls :: decls where
  "sampleDecls =
     \<lparr>PlanetType = 1, Transport = 3, HundredPercent = 10,
      IsShipID = (\<lambda>n. 202 \<le> n \<and> n \<le> 219), errText = sampleText\<rparr>"

definition requestOf :: "string \<Rightarrow> Values \<Rightarrow> request" where
  "requestOf planetID form =
     \<lparr>Param = (\<lambda>name. if name = ''planetID'' then planetID else []),
      ParseForm = None, Form = form, PostForm = form, QueryParams = []\<rparr>"

definition sampleRequest :: request where
  "sampleRequest =
     requestOf ''123''
       [(''ships'', [''203,1'', ''204,10'']), (''speed'', [''10'']), (''galaxy'', [''1'']),
        (''system'', [''1'']), (''type'', [''1'']), (''position'', [''1'']),
        (''mission'', [''3'']), (''metal'', [''1'']), (''crystal'', [''2'']),
        (''deuterium'', [''3''])]"

text \<open>A request with a destination and no ship, and one with no ship and a speed that is not a number.\<close>

definition noShipsRequest :: request where
  "noShipsRequest =
     requestOf ''123'' [(''galaxy'', [''1'']), (''system'', [''2'']), (''position'', [''3''])]"

definition badSpeedRequest :: request where
  "badSpeedRequest = requestOf ''123'' [(''speed'', [''abc''])]"

text \<open>A bot that has sent no request yet, and a dispatch that sends one.\<close>

definition freshBot :: "unit tracked" where
  "freshBot = \<lparr>requests = 0, inner = ()\<rparr>"

definition sampleDispatch ::
  "int \<Rightarrow> locals \<Rightarrow> unit tracked \<Rightarrow> (string \<times> error option) \<times> unit tracked" where
  "sampleDispatch planetID l bot0 = ((''fleet'', None), bot0\<lparr>requests := requests bot0 + 1\<rparr>)"

text \<open>
  An account with a second-factor seed and a pending challenge, a code generator that
  answers \<open>123456\<close>, and a challenge service whose answer to a submission has the status
  \<open>pending\<close>.
\<close>

definition sampleBot :: OGame where
  "sampleBot =
     \<lparr>Username = ''player@example.org'', password = ''secret'',
      otpSecret = ''JBSWY3DPEHPK3PXP'', ChallengeID = ''c434aa65'', state = []\<rparr>"

definition sampleCode :: "string \<Rightarrow> nat \<Rightarrow> ValidateOpts \<Rightarrow> string \<times> error option" where
  "sampleCode secret now opts = (''123456'', None)"

definition pendingOut :: captchaSolver where
  "pendingOut = \<lparr>ID_solver = ''c434aa65'', LastUpdated = 1611749410077, Status_solver = ''pending''\<rparr>"

definition solveRequest :: request where
  "solveRequest =
     \<lparr>Param = (\<lambda>name. []), ParseForm = None, Form = [],
      PostForm = [(''challenge_id'', [''c434aa65'']), (''answer'', [''2''])],
      QueryParams = []\<rparr>"

text \<open>The request that submits the answer \<open>2\<close> of \<open>solveRequest\<close>.\<close>

definition answerReq :: httpReq where
  \<open>answerReq =
     \<lparr>Method = ''POST'',
      URL = ''https://image-drop-challenge.gameforge.com/challenge/c434aa65/en-GB'',
      Body = ''{"answer":2}'',
      Header = [(''Content-Type'', ''application/json''),
                (''Accept-Encoding'', ''gzip, deflate, br'')]\<rparr>\<close>

text \<open>
  The request of a submission: what \<open>submitAnswer\<close> hands to the transport for the form
  \<open>c\<close>, once \<^verbatim>\<open>http.NewRequest\<close> has accepted its URL.
\<close>

definition submission :: "request \<Rightarrow> httpReq" where
  \<open>submission c =
     HeaderAdd ''Accept-Encoding'' ''gzip, deflate, br''
       (HeaderAdd ''Content-Type'' ''application/json''
         \<lparr>Method = ''POST'',
          URL = ''https://image-drop-challenge.gameforge.com/challenge/''
                  @ PostFormValue c ''challenge_id'' @ ''/en-GB'',
          Body = ''{"answer":'' @ PostFormValue c ''answer'' @ ''}'',
          Header = []\<rparr>)\<close>

text \<open>
  A challenge service that answers a submission with the body \<open>solved\<close> or \<open>pending\<close>,
  and a decoder of these two bodies.
\<close>

definition solvedOut :: captchaSolver where
  "solvedOut = \<lparr>ID_solver = ''c434aa65'', LastUpdated = 1611749410077, Status_solver = ''solved''\<rparr>"

definition sampleUnmarshal :: "string \<Rightarrow> captchaSolver \<times> error option" where
  "sampleUnmarshal by =
     (if by = ''solved'' then (solvedOut, None)
      else if by = ''pending'' then (pendingOut, None)
      else (\<lparr>ID_solver = [], LastUpdated = 0, Status_solver = []\<rparr>,
            Some (Other ''unexpected end of JSON input'')))"

section \<open>Evaluation of the samples\<close>

lemmas parse_simps = ParseInt_def ParseUint_def isDigit_def digitVal_def Split_def

lemmas handler_simps = sendFleetArgs_def formStep_def firstInt_def badRequest_def initLocals_def
  requestOf_def sampleDecls_def

lemma sampleDecls_errText: "errText sampleDecls = sampleText"
  by (simp add: sampleDecls_def)

lemma ParseInt_examples:
  "ParseInt ''123'' = Some 123"
  "ParseInt ''-9223372036854775808'' = Some (- 9223372036854775808)"
  "ParseInt ''9223372036854775808'' = None"
  "ParseInt ''+7'' = Some 7"
  "ParseInt ''1_0'' = None"
  "ParseInt ''abc'' = None"
  "ParseInt [] = None"
  by (simp_all add: parse_simps)

lemma Split_examples:
  "Split ''203,1'' = [''203'', ''1'']"
  "Split ''203'' = [''203'']"
  "Split [] = [[]]"
  by (simp_all add: Split_def)

lemma sample_args:
  "sendFleetArgs sampleDecls sampleRequest =
     Inr (123, \<lparr>ships = [\<lparr>ID = 203, Nbr = 1\<rparr>, \<lparr>ID = 204, Nbr = 10\<rparr>],
               where' = \<lparr>Galaxy = 1, System = 1, Position = 1, Type = 1\<rparr>,
               mission = 3, duration = 0, unionID = 0,
               payload = \<lparr>Metal = 1, Crystal = 2, Deuterium = 3\<rparr>, speed = 10\<rparr>)"
  by (simp add: sampleRequest_def handler_simps parse_simps)

lemma noShips_args:
  "sendFleetArgs sampleDecls noShipsRequest =
     Inr (123, \<lparr>ships = [],
               where' = \<lparr>Galaxy = 1, System = 2, Position = 3, Type = 1\<rparr>,
               mission = 3, duration = 0, unionID = 0,
               payload = \<lparr>Metal = 0, Crystal = 0, Deuterium = 0\<rparr>, speed = 10\<rparr>)"
  by (simp add: noShipsRequest_def handler_simps parse_simps)

lemma badSpeed_args:
  "sendFleetArgs sampleDecls badSpeedRequest = Inl (badRequest ''invalid speed'')"
  by (simp add: badSpeedRequest_def handler_simps parse_simps)

text \<open>A value of \<^verbatim>\<open>ships\<close> without a comma: \<^verbatim>\<open>a[1]\<close> is out of range.\<close>

lemma ships_without_comma:
  "sendFleetArgs sampleDecls (requestOf ''123'' [(''ships'', [''203''])]) = Inl Panic"
  by (simp add: handler_simps parse_simps)

section \<open>The loop over the form\<close>

text \<open>
  A quantity that no case but that of the key \<open>k\<close> changes is, after the loop over a form
  without \<open>k\<close>, what it was before.
\<close>

lemma formLoop_keeps:
  assumes step: "\<And>key vs l l'. formStep D key vs l = (Inr l' :: 'a exit + locals) \<Longrightarrow>
                   key \<noteq> k \<Longrightarrow> f l' = f l"
    and loop: "formLoop D form l = (Inr l' :: 'a exit + locals)"
    and absent: "k \<notin> set (keys form)"
  shows "f l' = f l"
  using loop absent
proof (induction form arbitrary: l)
  case Nil
  then show ?case by simp
next
  case (Cons kv form)
  obtain key vs where kv: "kv = (key, vs)" by (cases kv)
  from Cons.prems(1) kv obtain l1 where s: "formStep D key vs l = (Inr l1 :: 'a exit + locals)"
    and r: "formLoop D form l1 = (Inr l' :: 'a exit + locals)"
    by (auto split: sum.splits)
  from Cons.prems(2) kv have "key \<noteq> k" and "k \<notin> set (keys form)"
    by (auto simp: keys_def)
  with Cons.IH[OF r] step[OF s] show ?case by simp
qed

lemma formStep_ships:
  "formStep D key vs l = Inr l' \<Longrightarrow> key \<noteq> ''ships'' \<Longrightarrow> ships l' = ships l"
  unfolding formStep_def
  by (auto simp: firstInt_def split: if_splits list.splits option.splits sum.splits)

lemma formStep_mission:
  "formStep D key vs l = Inr l' \<Longrightarrow> key \<noteq> ''mission'' \<Longrightarrow> mission l' = mission l"
  unfolding formStep_def
  by (auto simp: firstInt_def split: if_splits list.splits option.splits sum.splits)

lemma formStep_speed:
  "formStep D key vs l = Inr l' \<Longrightarrow> key \<noteq> ''speed'' \<Longrightarrow> speed l' = speed l"
  unfolding formStep_def
  by (auto simp: firstInt_def split: if_splits list.splits option.splits sum.splits)

lemma formStep_type:
  "formStep D key vs l = Inr l' \<Longrightarrow> key \<noteq> ''type'' \<Longrightarrow> Type (where' l') = Type (where' l)"
  unfolding formStep_def
  by (auto simp: firstInt_def split: if_splits list.splits option.splits sum.splits)

lemma formStep_metal:
  "formStep D key vs l = Inr l' \<Longrightarrow> key \<noteq> ''metal'' \<Longrightarrow>
     Metal (payload l') = Metal (payload l)"
  unfolding formStep_def
  by (auto simp: firstInt_def split: if_splits list.splits option.splits sum.splits)

lemma formStep_crystal:
  "formStep D key vs l = Inr l' \<Longrightarrow> key \<noteq> ''crystal'' \<Longrightarrow>
     Crystal (payload l') = Crystal (payload l)"
  unfolding formStep_def
  by (auto simp: firstInt_def split: if_splits list.splits option.splits sum.splits)

lemma formStep_deuterium:
  "formStep D key vs l = Inr l' \<Longrightarrow> key \<noteq> ''deuterium'' \<Longrightarrow>
     Deuterium (payload l') = Deuterium (payload l)"
  unfolding formStep_def
  by (auto simp: firstInt_def split: if_splits list.splits option.splits sum.splits)

lemma formStep_duration:
  "formStep D key vs l = Inr l' \<Longrightarrow> key \<noteq> ''duration'' \<Longrightarrow> duration l' = duration l"
  unfolding formStep_def
  by (auto simp: firstInt_def split: if_splits list.splits option.splits sum.splits)

lemma formStep_union:
  "formStep D key vs l = Inr l' \<Longrightarrow> key \<noteq> ''union'' \<Longrightarrow> unionID l' = unionID l"
  unfolding formStep_def
  by (auto simp: firstInt_def split: if_splits list.splits option.splits sum.splits)

lemma sendFleetArgs_Inr:
  assumes "sendFleetArgs D req = (Inr (planetID, l) :: 'a exit + int \<times> locals)"
  shows "formLoop D (PostForm req) (initLocals D) = (Inr l :: 'a exit + locals)"
  using assms by (auto simp: sendFleetArgs_def split: option.splits sum.splits)

section \<open>LoginHandler: bad credentials and the other failures\<close>

text \<open>
  Claim C8. For every login attempt through \<^verbatim>\<open>LoginHandler\<close>, the failure
  \<^verbatim>\<open>ErrBadCredentials\<close>, and only that failure, is reported with HTTP 400 and the text of
  the bad-credentials error; every other failure, a proxy or network outage included, is
  reported with HTTP 500 and its own text; without a failure the reply is HTTP 200.
\<close>

theorem LoginHandler_classifies:
  assumes "LoginWithExistingCookies bot0 = ((ok, e), bot1)"
  shows "LoginHandler msg LoginWithExistingCookies bot0 =
           ((case e of
               None \<Rightarrow> Return (JSON 200 (SuccessResp None))
             | Some err \<Rightarrow>
                 if err = Sentinel ErrBadCredentials
                 then Return (JSON 400 (ErrorResp 400 (msg ErrBadCredentials)))
                 else Return (JSON 500 (ErrorResp 500 (Error msg err)))), bot1)"
  using assms by (simp add: LoginHandler_def split: option.splits)

theorem LoginHandler_classifies_witness:
  "LoginHandler sampleText
       (\<lambda>b. ((False, Some (Other ''proxyconnect tcp: connection refused'')), b)) sampleBot =
     (Return (JSON 500 (ErrorResp 500 ''proxyconnect tcp: connection refused'')), sampleBot) \<and>
   LoginHandler sampleText (\<lambda>b. ((False, Some (Sentinel ErrBadCredentials)), b)) sampleBot =
     (Return (JSON 400 (ErrorResp 400 ''ErrBadCredentials'')), sampleBot)"
  using LoginHandler_classifies[of
          "\<lambda>b. ((False, Some (Other ''proxyconnect tcp: connection refused'')), b)"
          sampleBot False "Some (Other ''proxyconnect tcp: connection refused'')" sampleBot
          sampleText]
        LoginHandler_classifies[of "\<lambda>b. ((False, Some (Sentinel ErrBadCredentials)), b)"
          sampleBot False "Some (Sentinel ErrBadCredentials)" sampleBot sampleText]
  by simp

section \<open>SendFleetHandler: the reply to the result of bot.SendFleet\<close>

text \<open>
  Claim C1. For every fleet-send request that \<^verbatim>\<open>SendFleetHandler\<close> hands to
  \<^verbatim>\<open>bot.SendFleet\<close>: if the call returns one of the thirteen named precondition errors,
  the reply is HTTP 400 with the text of that error; for any other error the reply is
  HTTP 500 with its text; without an error the reply is HTTP 200 with the fleet. The bot
  is left as that one call has left it: the handler calls \<^verbatim>\<open>bot.SendFleet\<close> once.
\<close>

theorem SendFleetHandler_classifies:
  assumes args: "sendFleetArgs D req = (Inr (planetID, l) :: 'f exit + int \<times> locals)"
    and call: "SendFleet planetID l bot0 = ((fleet :: 'f, e), bot1)"
  shows "SendFleetHandler D SendFleet req bot0 =
           ((case e of
               None \<Rightarrow> Return (JSON 200 (SuccessResp (Some fleet)))
             | Some (Sentinel s) \<Rightarrow>
                 if s \<in> set preconditionErrors
                 then Return (JSON 400 (ErrorResp 400 (errText D s)))
                 else Return (JSON 500 (ErrorResp 500 (errText D s)))
             | Some (Other t) \<Rightarrow> Return (JSON 500 (ErrorResp 500 t))), bot1)"
proof (cases e)
  case None
  with args call show ?thesis
    by (simp add: SendFleetHandler_def sendFleetReply_def)
next
  case (Some err)
  show ?thesis
  proof (cases err)
    case (Sentinel s)
    with Some args call show ?thesis
      by (cases s) (simp_all add: SendFleetHandler_def sendFleetReply_def preconditionErrors_def)
  next
    case (Other t)
    with Some args call show ?thesis
      by (simp add: SendFleetHandler_def sendFleetReply_def)
  qed
qed

theorem SendFleetHandler_classifies_witness:
  "SendFleetHandler sampleDecls
       (\<lambda>p l b. ((''none'', Some (Sentinel ErrNoDebrisField)), Suc b)) sampleRequest (0::nat) =
     (Return (JSON 400 (ErrorResp 400 ''ErrNoDebrisField'')), 1)"
  using SendFleetHandler_classifies[OF sample_args,
          of "\<lambda>p l b. ((''none'', Some (Sentinel ErrNoDebrisField)), Suc b)" "0::nat"
             "''none''" "Some (Sentinel ErrNoDebrisField)" 1]
  by (simp add: preconditionErrors_def sampleDecls_errText)

section \<open>SendFleetHandler: the defaults of the omitted fields\<close>

text \<open>
  Claim C10. For every fleet-send request that \<^verbatim>\<open>SendFleetHandler\<close> dispatches, the
  arguments of \<^verbatim>\<open>bot.SendFleet\<close> are the locals of the handler, and for each omitted
  field the default stands: the mission \<^verbatim>\<open>Transport\<close>, the speed \<^verbatim>\<open>HundredPercent\<close>,
  the type \<^verbatim>\<open>PlanetType\<close> of the destination, no metal, crystal or deuterium, the
  duration 0 and the union id 0. So a value other than the default comes from its field.
\<close>

theorem SendFleetHandler_defaults:
  assumes args: "sendFleetArgs D req = (Inr (planetID, l) :: 'f exit + int \<times> locals)"
  shows "SendFleetHandler D SendFleet req bot0 =
           (sendFleetReply D (fst (fst (SendFleet planetID l bot0)) :: 'f)
              (snd (fst (SendFleet planetID l bot0))), snd (SendFleet planetID l bot0)) \<and>
         (''mission'' \<notin> set (keys (PostForm req)) \<longrightarrow> mission l = Transport D) \<and>
         (''speed'' \<notin> set (keys (PostForm req)) \<longrightarrow> speed l = HundredPercent D) \<and>
         (''type'' \<notin> set (keys (PostForm req)) \<longrightarrow> Type (where' l) = PlanetType D) \<and>
         (''metal'' \<notin> set (keys (PostForm req)) \<longrightarrow> Metal (payload l) = 0) \<and>
         (''crystal'' \<notin> set (keys (PostForm req)) \<longrightarrow> Crystal (payload l) = 0) \<and>
         (''deuterium'' \<notin> set (keys (PostForm req)) \<longrightarrow> Deuterium (payload l) = 0) \<and>
         (''duration'' \<notin> set (keys (PostForm req)) \<longrightarrow> duration l = 0) \<and>
         (''union'' \<notin> set (keys (PostForm req)) \<longrightarrow> unionID l = 0)"
proof -
  note loop = sendFleetArgs_Inr[OF args]
  have call: "SendFleetHandler D SendFleet req bot0 =
           (sendFleetReply D (fst (fst (SendFleet planetID l bot0)) :: 'f)
              (snd (fst (SendFleet planetID l bot0))), snd (SendFleet planetID l bot0))"
    by (simp add: SendFleetHandler_def args split: prod.splits)
  have m: "''mission'' \<notin> set (keys (PostForm req)) \<Longrightarrow> mission l = Transport D"
    using formLoop_keeps[where f = mission, OF formStep_mission loop]
    by (simp add: initLocals_def)
  have s: "''speed'' \<notin> set (keys (PostForm req)) \<Longrightarrow> speed l = HundredPercent D"
    using formLoop_keeps[where f = speed, OF formStep_speed loop]
    by (simp add: initLocals_def)
  have t: "''type'' \<notin> set (keys (PostForm req)) \<Longrightarrow> Type (where' l) = PlanetType D"
    using formLoop_keeps[where f = "\<lambda>l. Type (where' l)", OF formStep_type loop]
    by (simp add: initLocals_def)
  have me: "''metal'' \<notin> set (keys (PostForm req)) \<Longrightarrow> Metal (payload l) = 0"
    using formLoop_keeps[where f = "\<lambda>l. Metal (payload l)", OF formStep_metal loop]
    by (simp add: initLocals_def)
  have c: "''crystal'' \<notin> set (keys (PostForm req)) \<Longrightarrow> Crystal (payload l) = 0"
    using formLoop_keeps[where f = "\<lambda>l. Crystal (payload l)", OF formStep_crystal loop]
    by (simp add: initLocals_def)
  have d: "''deuterium'' \<notin> set (keys (PostForm req)) \<Longrightarrow> Deuterium (payload l) = 0"
    using formLoop_keeps[where f = "\<lambda>l. Deuterium (payload l)", OF formStep_deuterium loop]
    by (simp add: initLocals_def)
  have du: "''duration'' \<notin> set (keys (PostForm req)) \<Longrightarrow> duration l = 0"
    using formLoop_keeps[where f = duration, OF formStep_duration loop]
    by (simp add: initLocals_def)
  have u: "''union'' \<notin> set (keys (PostForm req)) \<Longrightarrow> unionID l = 0"
    using formLoop_keeps[where f = unionID, OF formStep_union loop]
    by (simp add: initLocals_def)
  from call m s t me c d du u show ?thesis by blast
qed

text \<open>
  The request \<open>noShipsRequest\<close> gives a galaxy, a system and a position and omits all the
  fields of the claim; it is dispatched with the eight defaults.
\<close>

theorem SendFleetHandler_defaults_witness:
  "set (keys (PostForm noShipsRequest)) = {''galaxy'', ''system'', ''position''} \<and>
   SendFleetHandler sampleDecls (\<lambda>p l b. ((l, None), Suc b)) noShipsRequest (0::nat) =
     (Return (JSON 200 (SuccessResp (Some
        \<lparr>ships = [],
         where' = \<lparr>Galaxy = 1, System = 2, Position = 3, Type = PlanetType sampleDecls\<rparr>,
         mission = Transport sampleDecls, duration = 0, unionID = 0,
         payload = \<lparr>Metal = 0, Crystal = 0, Deuterium = 0\<rparr>,
         speed = HundredPercent sampleDecls\<rparr>))), 1)"
proof -
  have k: "set (keys (PostForm noShipsRequest)) = {''galaxy'', ''system'', ''position''}"
    by (simp add: noShipsRequest_def requestOf_def keys_def)
  from SendFleetHandler_defaults[OF noShips_args, of "\<lambda>p l b. ((l, None), Suc b)" "0::nat"] k
  show ?thesis
    by (simp add: sendFleetReply_def sampleDecls_def)
qed

section \<open>SendFleetHandler: a form without ships\<close>

text \<open>
  Claim C2, as the sources have it. For every fleet-send request whose form has no entry
  \<^verbatim>\<open>ships\<close>, the bot is left as it was, with the count of the requests it has sent to
  the game service; and if the planet id, the form and the fields given pass the checks
  of the handler, the reply is HTTP 400 with the text of \<^verbatim>\<open>ErrNoShipSelected\<close>. A request
  that the handler refuses for its planet id or a field gets the reply of that check
  instead.
\<close>

theorem SendFleetHandler_no_ships:
  assumes absent: "''ships'' \<notin> set (keys (PostForm req))"
  shows "snd (SendFleetHandler D (SendFleet_spec (noFleet :: 'f) dispatch) req bot0) = bot0 \<and>
         requests (snd (SendFleetHandler D (SendFleet_spec noFleet dispatch) req bot0)) =
           requests bot0 \<and>
         fst (SendFleetHandler D (SendFleet_spec noFleet dispatch) req bot0) =
           (case sendFleetArgs D req of
              Inl e \<Rightarrow> e
            | Inr a \<Rightarrow> Return (JSON 400 (ErrorResp 400 (errText D ErrNoShipSelected))))"
proof (cases "sendFleetArgs D req :: 'f exit + int \<times> locals")
  case (Inl e)
  then show ?thesis by (simp add: SendFleetHandler_def)
next
  case (Inr a)
  obtain planetID l where a: "a = (planetID, l)" by (cases a)
  from Inr a have loop: "formLoop D (PostForm req) (initLocals D) = (Inr l :: 'f exit + locals)"
    by (simp add: sendFleetArgs_Inr)
  have "ships l = ships (initLocals D)"
    using formLoop_keeps[where f = ships, OF formStep_ships loop absent] .
  then have "ships l = []" by (simp add: initLocals_def)
  with Inr a show ?thesis
    by (simp add: SendFleetHandler_def SendFleet_spec_def sendFleetReply_def)
qed

theorem SendFleetHandler_no_ships_witness:
  "''ships'' \<notin> set (keys (PostForm noShipsRequest)) \<and>
   SendFleetHandler sampleDecls (SendFleet_spec [] sampleDispatch) noShipsRequest freshBot =
     (Return (JSON 400 (ErrorResp 400 ''ErrNoShipSelected'')), freshBot) \<and>
   requests freshBot = 0"
proof -
  have absent: "''ships'' \<notin> set (keys (PostForm noShipsRequest))"
    by (simp add: noShipsRequest_def requestOf_def keys_def)
  from SendFleetHandler_no_ships[OF absent, of sampleDecls "[]" sampleDispatch freshBot] absent
  show ?thesis
    by (simp add: noShips_args prod_eq_iff sampleDecls_errText freshBot_def)
qed

text \<open>
  The claim as it is worded fails on a form with no ship and the speed \<open>abc\<close>: the
  handler replies \<open>invalid speed\<close> before it calls \<^verbatim>\<open>bot.SendFleet\<close>.
\<close>

theorem SendFleetHandler_no_ships_counterexample:
  "''ships'' \<notin> set (keys (PostForm badSpeedRequest)) \<and>
   SendFleetHandler sampleDecls (SendFleet_spec [] sampleDispatch) badSpeedRequest freshBot =
     (Return (JSON 400 (ErrorResp 400 ''invalid speed'')), freshBot) \<and>
   errText sampleDecls ErrNoShipSelected \<noteq> ''invalid speed''"
proof -
  have "''ships'' \<notin> set (keys (PostForm badSpeedRequest))"
    by (simp add: keys_def badSpeedRequest_def requestOf_def)
  moreover have
    "SendFleetHandler sampleDecls (SendFleet_spec [] sampleDispatch) badSpeedRequest freshBot =
       (Return (JSON 400 (ErrorResp 400 ''invalid speed'')), freshBot)"
    by (simp add: SendFleetHandler_def badSpeed_args badRequest_def)
  moreover have "errText sampleDecls ErrNoShipSelected \<noteq> ''invalid speed''"
    by (simp add: sampleDecls_errText)
  ultimately show ?thesis by blast
qed

section \<open>GetCaptchaHandler: the second factor\<close>

lemma canonical_keys:
  "CanonicalHeaderKey ''tnt-2fa-code'' = ''Tnt-2fa-Code''"
  "CanonicalHeaderKey ''tnt-installation-id'' = ''Tnt-Installation-Id''"
  "CanonicalHeaderKey ''Content-Type'' = ''Content-Type''"
  "CanonicalHeaderKey ''Accept-Encoding'' = ''Accept-Encoding''"
  by code_simp+

lemma HeaderValues_HeaderAdd:
  "HeaderValues k (HeaderAdd k' v req) =
     HeaderValues k req @ (if CanonicalHeaderKey k' = CanonicalHeaderKey k then [v] else [])"
  by (simp add: HeaderValues_def HeaderAdd_def)

lemma HeaderValues_empty: "HeaderValues k \<lparr>Method = m, URL = u, Body = b, Header = []\<rparr> = []"
  by (simp add: HeaderValues_def)

lemma fields_HeaderAdd:
  "Method (HeaderAdd k v req) = Method req"
  "URL (HeaderAdd k v req) = URL req"
  "Body (HeaderAdd k v req) = Body req"
  by (simp_all add: HeaderAdd_def)

text \<open>
  Where the seed is set and the library fails to generate a code, the handler replies
  with the text of the error and sends nothing.
\<close>

lemma GetCaptchaHandler_no_code:
  assumes "getConfiguration bot0 = (((gameEnvironmentID, platformGameID), None), bot1)"
    and "invalid ''POST'' ''https://gameforge.com/api/v1/auth/thin/sessions'' = None"
    and "otpSecret bot1 \<noteq> []"
    and "GenerateCodeCustom (otpSecret bot1) now
           \<lparr>Period = 30, Skew = 1, Digits = DigitsSix, Algorithm = AlgorithmSHA1\<rparr> =
         (passcode, Some err)"
  shows "GetCaptchaHandler msg Encode invalid GenerateCodeCustom now getConfiguration doReq
           answer bot0 = (Return (HTML 200 (Error msg err)), bot1)"
  using assms by (simp add: GetCaptchaHandler_def captchaRequest_def NewRequest_def)

text \<open>
  Claim C5. Whenever \<^verbatim>\<open>getConfiguration\<close> succeeds, \<^verbatim>\<open>http.NewRequest\<close> accepts the
  address and, for a seed \<^verbatim>\<open>otpSecret\<close> that is not empty, the library generates a code
  from the seed and the current time with a period of 30 seconds, a skew of 1, 6 digits
  and SHA1, \<^verbatim>\<open>GetCaptchaHandler\<close> builds the authentication request, a \<^verbatim>\<open>POST\<close> of the
  encoded payload to the sessions address, and hands it to the transport. If the seed is
  not empty, the request carries under \<^verbatim>\<open>tnt-2fa-code\<close> that code and no other value;
  if the seed is empty, it carries nothing under \<^verbatim>\<open>tnt-2fa-code\<close>.
\<close>

theorem GetCaptchaHandler_second_factor:
  assumes cfg: "getConfiguration bot0 = (((gameEnvironmentID, platformGameID), None), bot1)"
    and url: "invalid ''POST'' ''https://gameforge.com/api/v1/auth/thin/sessions'' = None"
    and code: "otpSecret bot1 = [] \<or>
               GenerateCodeCustom (otpSecret bot1) now
                 \<lparr>Period = 30, Skew = 1, Digits = DigitsSix, Algorithm = AlgorithmSHA1\<rparr> =
               (passcode, None)"
  shows "\<exists>req.
           GetCaptchaHandler msg Encode invalid GenerateCodeCustom now getConfiguration doReq
               answer bot0 =
             (case doReq req bot1 of
                ((resp, Some err), bot2) \<Rightarrow> (Return (HTML 200 (Error msg err)) :: 'a exit, bot2)
              | ((resp, None), bot2) \<Rightarrow> answer resp bot2) \<and>
           Method req = ''POST'' \<and>
           URL req = ''https://gameforge.com/api/v1/auth/thin/sessions'' \<and>
           Body req =
             Encode [(''autoGameAccountCreation'', [''false'']),
                     (''gameEnvironmentId'', [gameEnvironmentID]),
                     (''platformGameId'', [platformGameID]),
                     (''gfLang'', [''en'']),
                     (''locale'', [''en_GB'']),
                     (''identity'', [Username bot1]),
                     (''password'', [password bot1])] \<and>
           HeaderValues ''tnt-2fa-code'' req =
             (if otpSecret bot1 = [] then [] else [passcode])"
proof (cases "otpSecret bot1 = []")
  case True
  let ?req = "HeaderAdd ''Accept-Encoding'' ''gzip, deflate, br''
                (HeaderAdd ''Content-Type'' ''application/x-www-form-urlencoded''
                  \<lparr>Method = ''POST'', URL = ''https://gameforge.com/api/v1/auth/thin/sessions'',
                   Body = Encode [(''autoGameAccountCreation'', [''false'']),
                     (''gameEnvironmentId'', [gameEnvironmentID]),
                     (''platformGameId'', [platformGameID]),
                     (''gfLang'', [''en'']),
                     (''locale'', [''en_GB'']),
                     (''identity'', [Username bot1]),
                     (''password'', [password bot1])], Header = []\<rparr>)"
  have built: "captchaRequest msg Encode invalid GenerateCodeCustom now
                 ((gameEnvironmentID, platformGameID), None) bot1 = (Inr ?req :: 'a exit + httpReq)"
    using True url by (simp add: captchaRequest_def NewRequest_def)
  have "GetCaptchaHandler msg Encode invalid GenerateCodeCustom now getConfiguration doReq
               answer bot0 =
             (case doReq ?req bot1 of
                ((resp, Some err), bot2) \<Rightarrow> (Return (HTML 200 (Error msg err)) :: 'a exit, bot2)
              | ((resp, None), bot2) \<Rightarrow> answer resp bot2)"
    by (simp add: GetCaptchaHandler_def cfg built)
  moreover have "HeaderValues ''tnt-2fa-code'' ?req = []"
    by (simp add: HeaderValues_HeaderAdd HeaderValues_empty canonical_keys)
  ultimately show ?thesis using True
    by (intro exI[of _ ?req]) (simp add: fields_HeaderAdd)
next
  case False
  with code have gen: "GenerateCodeCustom (otpSecret bot1) now
                 \<lparr>Period = 30, Skew = 1, Digits = DigitsSix, Algorithm = AlgorithmSHA1\<rparr> =
               (passcode, None)"
    by simp
  let ?req = "HeaderAdd ''Accept-Encoding'' ''gzip, deflate, br''
                (HeaderAdd ''Content-Type'' ''application/x-www-form-urlencoded''
                  (HeaderAdd ''tnt-installation-id'' []
                    (HeaderAdd ''tnt-2fa-code'' passcode
                  \<lparr>Method = ''POST'', URL = ''https://gameforge.com/api/v1/auth/thin/sessions'',
                   Body = Encode [(''autoGameAccountCreation'', [''false'']),
                     (''gameEnvironmentId'', [gameEnvironmentID]),
                     (''platformGameId'', [platformGameID]),
                     (''gfLang'', [''en'']),
                     (''locale'', [''en_GB'']),
                     (''identity'', [Username bot1]),
                     (''password'', [password bot1])], Header = []\<rparr>)))"
  have built: "captchaRequest msg Encode invalid GenerateCodeCustom now
                 ((gameEnvironmentID, platformGameID), None) bot1 = (Inr ?req :: 'a exit + httpReq)"
    using False url gen by (simp add: captchaRequest_def NewRequest_def)
  have "GetCaptchaHandler msg Encode invalid GenerateCodeCustom now getConfiguration doReq
               answer bot0 =
             (case doReq ?req bot1 of
                ((resp, Some err), bot2) \<Rightarrow> (Return (HTML 200 (Error msg err)) :: 'a exit, bot2)
              | ((resp, None), bot2) \<Rightarrow> answer resp bot2)"
    by (simp add: GetCaptchaHandler_def cfg built)
  moreover have "HeaderValues ''tnt-2fa-code'' ?req = [passcode]"
    by (simp add: HeaderValues_HeaderAdd HeaderValues_empty canonical_keys)
  ultimately show ?thesis using False
    by (intro exI[of _ ?req]) (simp add: fields_HeaderAdd)
qed

text \<open>
  The handler on the sample account, with a transport that answers with the values it
  finds under \<^verbatim>\<open>tnt-2fa-code\<close> in the request it is given: the code with the seed, and
  nothing once the seed is removed.
\<close>

theorem GetCaptchaHandler_second_factor_witness:
  "GetCaptchaHandler sampleText (\<lambda>v. ''identity=player'') (\<lambda>m u. None) sampleCode
       (1611749410::nat) (\<lambda>b. (((''env'', ''game''), None), b))
       (\<lambda>r b. ((HeaderValues ''tnt-2fa-code'' r, None), b))
       (\<lambda>resp b. (Return (HTML 200 (concat resp)), b)) sampleBot =
     (Return (HTML 200 ''123456''), sampleBot) \<and>
   GetCaptchaHandler sampleText (\<lambda>v. ''identity=player'') (\<lambda>m u. None) sampleCode
       (1611749410::nat) (\<lambda>b. (((''env'', ''game''), None), b))
       (\<lambda>r b. ((HeaderValues ''tnt-2fa-code'' r, None), b))
       (\<lambda>resp b. (Return (HTML 200 (concat resp)), b)) (sampleBot\<lparr>otpSecret := []\<rparr>) =
     (Return (HTML 200 []), sampleBot\<lparr>otpSecret := []\<rparr>)"
proof -
  have s: "otpSecret sampleBot \<noteq> []" and e: "otpSecret (sampleBot\<lparr>otpSecret := []\<rparr>) = []"
    by (simp_all add: sampleBot_def)
  from GetCaptchaHandler_second_factor[
          where getConfiguration = "\<lambda>b. (((''env'', ''game''), None), b)"
            and ?bot0.0 = sampleBot and ?bot1.0 = sampleBot
            and invalid = "\<lambda>m u. None" and GenerateCodeCustom = sampleCode
            and now = "1611749410::nat" and passcode = "''123456''"
            and doReq = "\<lambda>r b. ((HeaderValues ''tnt-2fa-code'' r, None), b)"
            and answer = "\<lambda>resp b. (Return (HTML 200 (concat resp)), b)"
            and msg = sampleText and Encode = "\<lambda>v. ''identity=player''"] s
  have one: "GetCaptchaHandler sampleText (\<lambda>v. ''identity=player'') (\<lambda>m u. None) sampleCode
       (1611749410::nat) (\<lambda>b. (((''env'', ''game''), None), b))
       (\<lambda>r b. ((HeaderValues ''tnt-2fa-code'' r, None), b))
       (\<lambda>resp b. (Return (HTML 200 (concat resp)), b)) sampleBot =
     (Return (HTML 200 ''123456''), sampleBot)"
    by (auto simp: sampleCode_def)
  from GetCaptchaHandler_second_factor[
          where getConfiguration = "\<lambda>b. (((''env'', ''game''), None), b)"
            and ?bot0.0 = "sampleBot\<lparr>otpSecret := []\<rparr>"
            and ?bot1.0 = "sampleBot\<lparr>otpSecret := []\<rparr>"
            and invalid = "\<lambda>m u. None" and GenerateCodeCustom = sampleCode
            and now = "1611749410::nat" and passcode = "''123456''"
            and doReq = "\<lambda>r b. ((HeaderValues ''tnt-2fa-code'' r, None), b)"
            and answer = "\<lambda>resp b. (Return (HTML 200 (concat resp)), b)"
            and msg = sampleText and Encode = "\<lambda>v. ''identity=player''"] e
  have two: "GetCaptchaHandler sampleText (\<lambda>v. ''identity=player'') (\<lambda>m u. None) sampleCode
       (1611749410::nat) (\<lambda>b. (((''env'', ''game''), None), b))
       (\<lambda>r b. ((HeaderValues ''tnt-2fa-code'' r, None), b))
       (\<lambda>resp b. (Return (HTML 200 (concat resp)), b)) (sampleBot\<lparr>otpSecret := []\<rparr>) =
     (Return (HTML 200 []), sampleBot\<lparr>otpSecret := []\<rparr>)"
    by auto
  from one two show ?thesis by blast
qed

section \<open>GetCaptchaSolverHandler: one submission, then the login\<close>

lemma sentRequests_append: "sentRequests (xs @ ys) = sentRequests xs @ sentRequests ys"
  by (induction xs rule: sentRequests.induct) simp_all

lemma submission_sample: "submission solveRequest = answerReq"
  by (simp add: submission_def PostFormValue_def solveRequest_def HeaderAdd_def answerReq_def
      canonical_keys)

text \<open>
  The first part of the handler, where the service responds: the status is the one that
  \<^verbatim>\<open>json.Unmarshal\<close> reads in the body of that response.
\<close>

lemma submitAnswer_response:
  assumes url: "invalid ''POST'' (URL (submission c)) = None"
    and resp: "doReq (submission c) bot0 = (Some resp, bot1)"
  shows "submitAnswer invalid doReq readBody Unmarshal c bot0 =
           Inr (fst (Unmarshal (fst (readBody resp))),
                (if Status_solver (fst (Unmarshal (fst (readBody resp)))) = ''solved''
                 then bot1\<lparr>ChallengeID := []\<rparr> else bot1),
                [Sent (submission c)]
                  @ (if snd (readBody resp) \<noteq> None then [Logged] else [])
                  @ (if snd (Unmarshal (fst (readBody resp))) \<noteq> None then [Logged] else []))"
  using url resp
  by (simp add: submitAnswer_def submission_def NewRequest_def HeaderAdd_def Let_def
      split: prod.splits)

lemma sample_solver_run:
  "GetCaptchaSolverHandler (\<lambda>m u. None) (\<lambda>r b. (Some ''body'', b)) (\<lambda>r. (r, None))
      (\<lambda>by. (pendingOut, None)) (\<lambda>b. False) (\<lambda>b. ((True, None), b)) solveRequest sampleBot =
     (Return (JSON 200 (SuccessResp (Some (Out pendingOut)))), sampleBot,
      [Sent answerReq, LoginCalled])"
  by (simp add: GetCaptchaSolverHandler_def submitAnswer_def PostFormValue_def solveRequest_def
      NewRequest_def HeaderAdd_def pendingOut_def answerReq_def canonical_keys)

text \<open>
  Claim C6, as the sources have it. For every submission of an answer that gets a
  response, \<^verbatim>\<open>GetCaptchaSolverHandler\<close> sends one request, the \<^verbatim>\<open>POST\<close> of the answer
  to the challenge, and no other; the status \<open>out\<close> is the one read in the body of that
  response. The bot \<open>bot2\<close> after it has the challenge identifier cleared exactly when that
  status is \<open>solved\<close>, and is otherwise the bot as the request has left it. Then, whatever
  the status, the handler calls the login, on \<open>bot2\<close>, exactly when \<open>bot2\<close> is not logged
  in, and replies with \<open>out\<close> (or, when the login fails, with its status and HTTP 409).
\<close>

theorem GetCaptchaSolverHandler_single_submission:
  assumes url: "invalid ''POST'' (URL (submission c)) = None"
    and resp: "doReq (submission c) bot0 = (Some resp, bot1)"
    and out: "out = fst (Unmarshal (fst (readBody resp)))"
    and bot2: "bot2 = (if Status_solver out = ''solved'' then bot1\<lparr>ChallengeID := []\<rparr> else bot1)"
    and run: "r = GetCaptchaSolverHandler invalid doReq readBody Unmarshal IsLoggedIn
                    LoginWithExistingCookies c bot0"
  shows "sentRequests (snd (snd r)) = [submission c] \<and>
         (LoginCalled \<in> set (snd (snd r))) = (\<not> IsLoggedIn bot2) \<and>
         fst (snd r) = (if IsLoggedIn bot2 then bot2 else snd (LoginWithExistingCookies bot2)) \<and>
         fst r =
           (if IsLoggedIn bot2 then Return (JSON 200 (SuccessResp (Some (Out out))))
            else case snd (fst (LoginWithExistingCookies bot2)) of
                   Some err \<Rightarrow>
                     Return (JSON 409 (SuccessResp (Some (OutStatus (Status_solver out)))))
                 | None \<Rightarrow> Return (JSON 200 (SuccessResp (Some (Out out)))))"
proof -
  have sub: "submitAnswer invalid doReq readBody Unmarshal c bot0 =
           Inr (out, bot2,
                [Sent (submission c)]
                  @ (if snd (readBody resp) \<noteq> None then [Logged] else [])
                  @ (if snd (Unmarshal (fst (readBody resp))) \<noteq> None then [Logged] else []))"
    using submitAnswer_response[where invalid = invalid and doReq = doReq and c = c
            and ?bot0.0 = bot0 and resp = resp and ?bot1.0 = bot1 and readBody = readBody
            and Unmarshal = Unmarshal] url resp
    by (simp add: out bot2)
  show ?thesis
    unfolding run GetCaptchaSolverHandler_def sub
    by (auto simp: sentRequests_append split: prod.splits option.splits)
qed

text \<open>
  The handler on the sample submission, for a service that answers \<open>solved\<close> and for one
  that answers \<open>pending\<close>: one request and the login in both, the identifier cleared in
  the first only.
\<close>

theorem GetCaptchaSolverHandler_single_submission_witness:
  "GetCaptchaSolverHandler (\<lambda>m u. None) (\<lambda>r b. (Some ''solved'', b)) (\<lambda>resp. (resp, None))
       sampleUnmarshal (\<lambda>b. False) (\<lambda>b. ((True, None), b)) solveRequest sampleBot =
     (Return (JSON 200 (SuccessResp (Some (Out solvedOut)))), sampleBot\<lparr>ChallengeID := []\<rparr>,
      [Sent answerReq, LoginCalled]) \<and>
   GetCaptchaSolverHandler (\<lambda>m u. None) (\<lambda>r b. (Some ''pending'', b)) (\<lambda>resp. (resp, None))
       sampleUnmarshal (\<lambda>b. False) (\<lambda>b. ((True, None), b)) solveRequest sampleBot =
     (Return (JSON 200 (SuccessResp (Some (Out pendingOut)))), sampleBot,
      [Sent answerReq, LoginCalled])"
proof -
  let ?h = "\<lambda>body. GetCaptchaSolverHandler (\<lambda>m u. None) (\<lambda>r b. (Some body, b))
       (\<lambda>resp. (resp, None)) sampleUnmarshal (\<lambda>b. False) (\<lambda>b. ((True, None), b)) solveRequest
       sampleBot"
  have evs: "snd (snd (?h ''solved'')) = [Sent answerReq, LoginCalled]"
    "snd (snd (?h ''pending'')) = [Sent answerReq, LoginCalled]"
    by (simp_all add: GetCaptchaSolverHandler_def submitAnswer_def PostFormValue_def
      solveRequest_def NewRequest_def HeaderAdd_def answerReq_def canonical_keys
      sampleUnmarshal_def)
  from GetCaptchaSolverHandler_single_submission[where invalid = "\<lambda>m u. None"
         and doReq = "\<lambda>r b. (Some ''solved'', b)" and c = solveRequest and ?bot0.0 = sampleBot
         and resp = "''solved''" and ?bot1.0 = sampleBot and readBody = "\<lambda>resp. (resp, None)"
         and Unmarshal = sampleUnmarshal and out = solvedOut
         and ?bot2.0 = "sampleBot\<lparr>ChallengeID := []\<rparr>" and IsLoggedIn = "\<lambda>b. False"
         and LoginWithExistingCookies = "\<lambda>b. ((True, None), b)" and r = "?h ''solved''"]
  have "fst (?h ''solved'') = Return (JSON 200 (SuccessResp (Some (Out solvedOut)))) \<and>
        fst (snd (?h ''solved'')) = sampleBot\<lparr>ChallengeID := []\<rparr>"
    by (simp add: sampleUnmarshal_def solvedOut_def)
  with evs(1) have one: "?h ''solved'' =
     (Return (JSON 200 (SuccessResp (Some (Out solvedOut)))), sampleBot\<lparr>ChallengeID := []\<rparr>,
      [Sent answerReq, LoginCalled])"
    by (simp add: prod_eq_iff)
  from GetCaptchaSolverHandler_single_submission[where invalid = "\<lambda>m u. None"
         and doReq = "\<lambda>r b. (Some ''pending'', b)" and c = solveRequest and ?bot0.0 = sampleBot
         and resp = "''pending''" and ?bot1.0 = sampleBot and readBody = "\<lambda>resp. (resp, None)"
         and Unmarshal = sampleUnmarshal and out = pendingOut
         and ?bot2.0 = sampleBot and IsLoggedIn = "\<lambda>b. False"
         and LoginWithExistingCookies = "\<lambda>b. ((True, None), b)" and r = "?h ''pending''"]
  have "fst (?h ''pending'') = Return (JSON 200 (SuccessResp (Some (Out pendingOut)))) \<and>
        fst (snd (?h ''pending'')) = sampleBot"
    by (simp add: sampleUnmarshal_def pendingOut_def)
  with evs(2) have two: "?h ''pending'' =
     (Return (JSON 200 (SuccessResp (Some (Out pendingOut)))), sampleBot,
      [Sent answerReq, LoginCalled])"
    by (simp add: prod_eq_iff)
  from one two show ?thesis by blast
qed

text \<open>
  The claim as it is worded, that the status is polled until it is \<open>solved\<close> and that the
  login is resumed only then, fails where the challenge service answers \<open>pending\<close> and the
  bot is not logged in: the handler has sent its one request, read a status that is not
  \<open>solved\<close>, and called the login.
\<close>

theorem GetCaptchaSolverHandler_pending_counterexample:
  "GetCaptchaSolverHandler (\<lambda>m u. None) (\<lambda>r b. (Some ''body'', b)) (\<lambda>r. (r, None))
      (\<lambda>by. (pendingOut, None)) (\<lambda>b. False) (\<lambda>b. ((True, None), b)) solveRequest sampleBot =
     (Return (JSON 200 (SuccessResp (Some (Out pendingOut)))), sampleBot,
      [Sent answerReq, LoginCalled]) \<and>
   Status_solver pendingOut \<noteq> ''solved''"
  using sample_solver_run by (simp add: pendingOut_def)

section \<open>Handlers that drop the error of the bot\<close>

lemma GetFleetsHandler_ignores_error:
  "GetFleetsHandler (\<lambda>b. ((fleets, e), b)) bot0 =
     (Return (JSON 200 (SuccessResp (Some fleets))), bot0)"
  by (simp add: GetFleetsHandler_def)

lemma PageContentHandler_ignores_error:
  "ParseForm req = None \<Longrightarrow>
   PageContentHandler msg (\<lambda>v b. ((pageHTML, e), b)) req bot0 =
     (Return (JSON 200 (SuccessResp (Some pageHTML))), bot0)"
  by (simp add: PageContentHandler_def)

lemma GetFromGameHandler_status:
  "set (map httpStatus
     (fst (GetFromGameHandler msg getPageContent GetPageContent rewrite req bot0))) = {200}"
  by (simp add: GetFromGameHandler_def Let_def split: prod.splits option.splits)

lemma IsUnderAttackHandler_reports_error:
  "IsUnderAttackHandler msg (\<lambda>b. ((v, Some err), b)) bot0 =
     (Return (JSON 500 (ErrorResp 500 (Error msg err))), bot0)"
  by (simp add: IsUnderAttackHandler_def)

text \<open>
  Claim C7. The claim is that a handler never answers with a success when the operation of
  the bot has returned an error. Where the call of the bot fails with
  \<open>context deadline exceeded\<close>, \<^verbatim>\<open>GetFleetsHandler\<close> and \<^verbatim>\<open>PageContentHandler\<close> reply
  HTTP 200 with the status \<open>ok\<close>, and \<^verbatim>\<open>GetFromGameHandler\<close> writes the text of the error
  and then the page, both with HTTP 200; \<^verbatim>\<open>IsUnderAttackHandler\<close>, in the same file,
  replies HTTP 500 with the text of the error.
\<close>

theorem handlers_swallow_error:
  "GetFleetsHandler
       (\<lambda>b. (([] :: string list, Some (Other ''context deadline exceeded'')), b)) sampleBot =
     (Return (JSON 200 (SuccessResp (Some []))), sampleBot) \<and>
   PageContentHandler sampleText (\<lambda>v b. (([], Some (Other ''context deadline exceeded'')), b))
       sampleRequest sampleBot =
     (Return (JSON 200 (SuccessResp (Some []))), sampleBot) \<and>
   GetFromGameHandler sampleText
       (\<lambda>v b. (([], Some (Other ''context deadline exceeded'')), b))
       (\<lambda>v b. (([], Some (Other ''context deadline exceeded'')), b))
       (\<lambda>b page. page) sampleRequest sampleBot =
     ([HTMLBlob 200 ''context deadline exceeded'', HTMLBlob 200 [] :: unit reply], sampleBot) \<and>
   IsUnderAttackHandler sampleText
       (\<lambda>b. ((False, Some (Other ''context deadline exceeded'')), b)) sampleBot =
     (Return (JSON 500 (ErrorResp 500 ''context deadline exceeded'')), sampleBot)"
  by (simp add: GetFleetsHandler_def PageContentHandler_def GetFromGameHandler_def
      IsUnderAttackHandler_def sampleRequest_def requestOf_def sampleBot_def)

end
